theory Spec2Isabelle
  imports Complex_Main
begin

section \<open>Compact mobile mode: data model\<close>

text \<open>
  The controller class \<open>CompactMobileMode\<close> keeps two booleans and a configuration and
  writes to the document root: its class list, three custom CSS properties, and a
  \<open>compactModeChange\<close> event dispatched on the document. JavaScript numbers are
  modelled as rationals: the code copies and compares them and never computes with
  them, so the decimal literals \<open>0.857\<close> and \<open>0.8\<close> are the exact values \<open>857/1000\<close>
  and \<open>4/5\<close>. \<open>NaN\<close> and the infinities are not modelled.
\<close>

record CompactModeConfig =
  autoEnable :: bool
  breakpoint :: rat
  scaleFactor :: rat
  touchMinSize :: rat
  enablePassiveListeners :: bool

text \<open>\<open>Partial<CompactModeConfig>\<close>: every key may be absent.\<close>

record PartialConfig =
  autoEnable_opt :: "bool option"
  breakpoint_opt :: "rat option"
  scaleFactor_opt :: "rat option"
  touchMinSize_opt :: "rat option"
  enablePassiveListeners_opt :: "bool option"

datatype level = Normal | Smaller

datatype action = Enabled | Disabled

text \<open>The \<open>detail\<close> of a dispatched \<open>compactModeChange\<close> event.\<close>

record CompactModeEvent =
  detail_action :: action
  detail_isCompact :: bool
  detail_scaleFactor :: rat

text \<open>The object returned by \<open>getStatus\<close>.\<close>

record Status =
  status_isCompact :: bool
  status_isManual :: bool
  status_scaleFactor :: rat

text \<open>
  The text stored for a custom property is either \<open>n.toString()\<close> or the template
  \<open>`${n}px`\<close> of a number \<open>n\<close>; both are kept as the number they print.
\<close>

datatype css_value = NumberText rat | PxText rat

datatype observer = Observing | Disconnected

text \<open>
  A browser window as far as the controller touches it: \<open>window.innerWidth\<close>, whether
  \<open>window.matchMedia\<close> is there to be called, whether the media query list it returns
  has \<open>addEventListener\<close>, whether \<open>'ResizeObserver' in window\<close>, the class list and the
  custom properties of \<open>document.documentElement\<close>, and the \<open>compactModeChange\<close>
  events dispatched on the document so far, oldest first. The document, its root
  element and \<open>document.addEventListener\<close> are there in every window.
\<close>

record browser =
  innerWidth :: rat
  matchMediaSupported :: bool
  changeListenerSupported :: bool
  resizeObserverSupported :: bool
  classList :: "string set"
  style :: "string \<rightharpoonup> css_value"
  dispatched :: "CompactModeEvent list"

text \<open>
  A page is a browser window together with the private fields of the controller that
  lives in it. \<open>mediaQuery\<close> holds the pixel bound of the \<open>(max-width: ...px)\<close> query,
  \<open>None\<close> for \<open>null\<close>. The listeners registered on the media query list and on the
  document, and the inline styles of elements other than the root, stay in the browser:
  what they deliver is modelled by the operations below.
\<close>

record page = browser +
  config :: CompactModeConfig
  isCompactMode :: bool
  isManualMode :: bool
  resizeObserver :: "observer option"
  mediaQuery :: "rat option"

text \<open>
  What a call can throw: the \<open>Error\<close> of \<open>initCompactMobileMode\<close> with its message, or
  the \<open>TypeError\<close> of calling a method that is not there. A method that can throw
  returns either the error with the page as the throw leaves it, or the page.
\<close>

datatype error = Error string | TypeError

type_synonym outcome = "(error \<times> page) + page"

definition page_after :: "outcome \<Rightarrow> page" where
  "page_after r = (case r of Inl (e, s) \<Rightarrow> s | Inr s \<Rightarrow> s)"

definition default_config :: CompactModeConfig where
  "default_config =
     \<lparr>autoEnable = True, breakpoint = 480, scaleFactor = 857 / 1000,
      touchMinSize = 40, enablePassiveListeners = True\<rparr>"

text \<open>The object spread \<open>{ ...c, ...p }\<close>: a key present in \<open>p\<close> wins.\<close>

definition spread :: "CompactModeConfig \<Rightarrow> PartialConfig \<Rightarrow> CompactModeConfig" where
  "spread c p =
     \<lparr>autoEnable = (case autoEnable_opt p of None \<Rightarrow> autoEnable c | Some v \<Rightarrow> v),
      breakpoint = (case breakpoint_opt p of None \<Rightarrow> breakpoint c | Some v \<Rightarrow> v),
      scaleFactor = (case scaleFactor_opt p of None \<Rightarrow> scaleFactor c | Some v \<Rightarrow> v),
      touchMinSize = (case touchMinSize_opt p of None \<Rightarrow> touchMinSize c | Some v \<Rightarrow> v),
      enablePassiveListeners =
        (case enablePassiveListeners_opt p of None \<Rightarrow> enablePassiveListeners c | Some v \<Rightarrow> v)\<rparr>"

definition no_overrides :: PartialConfig where
  "no_overrides =
     \<lparr>autoEnable_opt = None, breakpoint_opt = None, scaleFactor_opt = None,
      touchMinSize_opt = None, enablePassiveListeners_opt = None\<rparr>"

text \<open>
  \<open>x || d\<close> on an optional number: \<open>undefined\<close> and \<open>0\<close> are falsy and give \<open>d\<close>.
\<close>

fun or_default :: "rat option \<Rightarrow> rat \<Rightarrow> rat" where
  "or_default None d = d"
| "or_default (Some x) d = (if x = 0 then d else x)"

section \<open>The methods of the controller\<close>

definition updateCSSProperties :: "rat option \<Rightarrow> rat option \<Rightarrow> page \<Rightarrow> page" where
  "updateCSSProperties sf fs s =
     (let scale = or_default sf (scaleFactor (config s));
          font = or_default fs 12
      in s\<lparr>style := (style s)
             (''--compact-scale-factor'' \<mapsto> NumberText scale,
              ''--compact-font-base'' \<mapsto> PxText font,
              ''--compact-touch-min-size'' \<mapsto> PxText (touchMinSize (config s)))\<rparr>)"

definition resetCSSProperties :: "page \<Rightarrow> page" where
  "resetCSSProperties s =
     s\<lparr>style := (style s)
          (''--compact-scale-factor'' := None,
           ''--compact-font-base'' := None,
           ''--compact-touch-min-size'' := None)\<rparr>"

definition dispatchCompactModeEvent :: "action \<Rightarrow> page \<Rightarrow> page" where
  "dispatchCompactModeEvent a s =
     s\<lparr>dispatched := dispatched s @
          [\<lparr>detail_action = a, detail_isCompact = isCompactMode s,
            detail_scaleFactor = scaleFactor (config s)\<rparr>]\<rparr>"

text \<open>
  \<open>addTouchActionToElements\<close> sets the inline \<open>touch-action\<close> of the interactive
  elements of the document. It reads and writes nothing that a page records.
\<close>

definition addTouchActionToElements :: "page \<Rightarrow> page" where
  "addTouchActionToElements s = s"

definition enableCompactMode :: "page \<Rightarrow> page" where
  "enableCompactMode s =
     (if isCompactMode s then s
      else dispatchCompactModeEvent Enabled
             (addTouchActionToElements
               (updateCSSProperties None None
                 (s\<lparr>isCompactMode := True,
                    classList := insert ''compact-mode'' (classList s)\<rparr>))))"

definition disableCompactMode :: "page \<Rightarrow> page" where
  "disableCompactMode s =
     (if \<not> isCompactMode s then s
      else dispatchCompactModeEvent Disabled
             (resetCSSProperties
               (s\<lparr>isCompactMode := False,
                  classList := classList s - {''compact-mode'', ''compact-mode-smaller''}\<rparr>)))"

definition toggleCompactMode :: "page \<Rightarrow> page" where
  "toggleCompactMode s =
     (let s1 = s\<lparr>isManualMode := True\<rparr>
      in if isCompactMode s1 then disableCompactMode s1 else enableCompactMode s1)"

definition setCompactModeLevel :: "level \<Rightarrow> page \<Rightarrow> page" where
  "setCompactModeLevel l s =
     (let s1 = s\<lparr>isManualMode := True\<rparr>
      in if l = Smaller
         then updateCSSProperties (Some (8 / 10)) (Some 11)
                (s1\<lparr>classList := insert ''compact-mode-smaller'' (classList s1)\<rparr>)
         else updateCSSProperties None None
                (s1\<lparr>classList := classList s1 - {''compact-mode-smaller''}\<rparr>))"

definition autoDetectAndApply :: "page \<Rightarrow> page" where
  "autoDetectAndApply s =
     (if \<not> autoEnable (config s) \<or> isManualMode s then s
      else let shouldEnable = (innerWidth s \<le> breakpoint (config s))
           in if shouldEnable \<and> \<not> isCompactMode s then enableCompactMode s
              else if \<not> shouldEnable \<and> isCompactMode s then disableCompactMode s
              else s)"

definition handleMediaQueryChange :: "page \<Rightarrow> page" where
  "handleMediaQueryChange s = (if \<not> isManualMode s then autoDetectAndApply s else s)"

definition getStatus :: "page \<Rightarrow> Status" where
  "getStatus s =
     \<lparr>status_isCompact = isCompactMode s, status_isManual = isManualMode s,
      status_scaleFactor = scaleFactor (config s)\<rparr>"

text \<open>
  A page has a window, so the \<open>typeof window\<close> guards of the setup methods pass.
  \<open>setupMediaQuery\<close> calls \<open>window.matchMedia\<close>, assigns the result to \<open>mediaQuery\<close>
  and calls its \<open>addEventListener\<close>, checking for neither: each call throws when the
  method is missing, the second one after the assignment.
\<close>

definition setupMediaQuery :: "page \<Rightarrow> outcome" where
  "setupMediaQuery s =
     (if \<not> matchMediaSupported s then Inl (TypeError, s)
      else let s1 = s\<lparr>mediaQuery := Some (breakpoint (config s))\<rparr>
           in if \<not> changeListenerSupported s1 then Inl (TypeError, s1) else Inr s1)"

definition setupResizeObserver :: "page \<Rightarrow> page" where
  "setupResizeObserver s =
     (if resizeObserverSupported s then s\<lparr>resizeObserver := Some Observing\<rparr> else s)"

definition setupPassiveListeners :: "page \<Rightarrow> page" where
  "setupPassiveListeners s =
     (if \<not> enablePassiveListeners (config s) then s else addTouchActionToElements s)"

definition init :: "page \<Rightarrow> outcome" where
  "init s =
     (case setupMediaQuery s of
        Inl t \<Rightarrow> Inl t
      | Inr s1 \<Rightarrow> Inr (autoDetectAndApply (setupPassiveListeners (setupResizeObserver s1))))"

text \<open>
  The constructor: the field initialisers, the spread of the optional argument over the
  defaults, then \<open>init\<close>.
\<close>

definition new_CompactMobileMode :: "PartialConfig option \<Rightarrow> browser \<Rightarrow> outcome" where
  "new_CompactMobileMode cfg b =
     init \<lparr>innerWidth = innerWidth b,
           matchMediaSupported = matchMediaSupported b,
           changeListenerSupported = changeListenerSupported b,
           resizeObserverSupported = resizeObserverSupported b,
           classList = classList b,
           style = style b,
           dispatched = dispatched b,
           config = spread default_config (case cfg of None \<Rightarrow> no_overrides | Some p \<Rightarrow> p),
           isCompactMode = False,
           isManualMode = False,
           resizeObserver = None,
           mediaQuery = None\<rparr>"

text \<open>
  \<open>updateConfig\<close> and \<open>destroy\<close> call \<open>removeEventListener\<close> on the media query list,
  which changes no field of a page.
\<close>

definition updateConfig :: "PartialConfig \<Rightarrow> page \<Rightarrow> outcome" where
  "updateConfig newConfig s =
     (case setupMediaQuery (s\<lparr>config := spread (config s) newConfig\<rparr>) of
        Inl t \<Rightarrow> Inl t
      | Inr s1 \<Rightarrow> Inr (if isCompactMode s1 then updateCSSProperties None None s1 else s1))"

definition destroy :: "page \<Rightarrow> page" where
  "destroy s =
     disableCompactMode
       (case resizeObserver s of
          None \<Rightarrow> s
        | Some _ \<Rightarrow> s\<lparr>resizeObserver := Some Disconnected\<rparr>)"

section \<open>Runs of operations\<close>

text \<open>
  What can happen to a live controller: a call of a public method, or the browser
  delivering a resize (the observer callback calls \<open>autoDetectAndApply\<close>) or a media
  query change at a new window width. A call of \<open>updateConfig\<close> that throws leaves the
  controller as it was at the throw.
\<close>

datatype operation =
    EnableCompactMode
  | DisableCompactMode
  | ToggleCompactMode
  | SetCompactModeLevel level
  | AutoDetectAndApply rat
  | HandleMediaQueryChange rat
  | UpdateConfig PartialConfig
  | Destroy

fun step :: "operation \<Rightarrow> page \<Rightarrow> page" where
  "step EnableCompactMode s = enableCompactMode s"
| "step DisableCompactMode s = disableCompactMode s"
| "step ToggleCompactMode s = toggleCompactMode s"
| "step (SetCompactModeLevel l) s = setCompactModeLevel l s"
| "step (AutoDetectAndApply w) s = autoDetectAndApply (s\<lparr>innerWidth := w\<rparr>)"
| "step (HandleMediaQueryChange w) s = handleMediaQueryChange (s\<lparr>innerWidth := w\<rparr>)"
| "step (UpdateConfig p) s = page_after (updateConfig p s)"
| "step Destroy s = destroy s"

fun run :: "operation list \<Rightarrow> page \<Rightarrow> page" where
  "run [] s = s"
| "run (x # xs) s = run xs (step x s)"

section \<open>The module: the global instance\<close>





section \<open>Concrete windows\<close>

text \<open>
  Two current browsers, a phone and a desktop; a window without \<open>matchMedia\<close>, as a
  DOM emulation gives; and a window whose media query lists have only the older
  \<open>addListener\<close>.
\<close>

definition phone :: browser where
  "phone = \<lparr>innerWidth = 375, matchMediaSupported = True, changeListenerSupported = True,
            resizeObserverSupported = True, classList = {}, style = Map.empty,
            dispatched = []\<rparr>"

definition desktop :: browser where
  "desktop = \<lparr>innerWidth = 800, matchMediaSupported = True, changeListenerSupported = True,
              resizeObserverSupported = True, classList = {}, style = Map.empty,
              dispatched = []\<rparr>"

definition emulated :: browser where
  "emulated = \<lparr>innerWidth = 1024, matchMediaSupported = False,
               changeListenerSupported = False, resizeObserverSupported = False,
               classList = {}, style = Map.empty, dispatched = []\<rparr>"

definition legacy :: browser where
  "legacy = \<lparr>innerWidth = 375, matchMediaSupported = True, changeListenerSupported = False,
             resizeObserverSupported = False, classList = {}, style = Map.empty,
             dispatched = []\<rparr>"

lemmas method_defs =
  updateCSSProperties_def resetCSSProperties_def dispatchCompactModeEvent_def
  addTouchActionToElements_def enableCompactMode_def disableCompactMode_def
  toggleCompactMode_def setCompactModeLevel_def autoDetectAndApply_def
  handleMediaQueryChange_def getStatus_def setupMediaQuery_def setupResizeObserver_def
  setupPassiveListeners_def init_def updateConfig_def destroy_def page_after_def

lemmas setup_defs =
  new_CompactMobileMode_def default_config_def spread_def no_overrides_def
  phone_def desktop_def emulated_def legacy_def

text \<open>In the two current browsers the constructor returns.\<close>

lemma current_browsers_construct:
  "new_CompactMobileMode None phone = Inr (page_after (new_CompactMobileMode None phone))
   \<and> new_CompactMobileMode None desktop = Inr (page_after (new_CompactMobileMode None desktop))"
  by (simp add: method_defs setup_defs Let_def)

section \<open>Automatic mode\<close>

text \<open>
  C1. While the controller is in auto mode (\<open>autoEnable\<close> set, \<open>isManualMode\<close>
  clear), after \<open>autoDetectAndApply\<close> has run with \<open>window.innerWidth = w\<close>,
  \<open>isCompactMode\<close> is \<open>w \<le> breakpoint\<close>, for every width \<open>w\<close>.
\<close>

theorem autoDetectAndApply_tracks_width:
  assumes "autoEnable (config s)" and "\<not> isManualMode s"
  shows "isCompactMode (autoDetectAndApply (s\<lparr>innerWidth := w\<rparr>)) = (w \<le> breakpoint (config s))"
  using assms by (simp add: method_defs Let_def)

text \<open>
  The scenario of the specification: breakpoint 480 and width 375 give compact mode
  with the scale 0.857; a resize to 800 leaves it and removes the property.
\<close>

theorem autoDetectAndApply_tracks_width_witness:
  "autoEnable (config (page_after (new_CompactMobileMode None phone)))
   \<and> \<not> isManualMode (page_after (new_CompactMobileMode None phone))
   \<and> isCompactMode (page_after (new_CompactMobileMode None phone))
   \<and> style (page_after (new_CompactMobileMode None phone)) ''--compact-scale-factor''
       = Some (NumberText (857 / 1000))
   \<and> \<not> isCompactMode (autoDetectAndApply ((page_after (new_CompactMobileMode None phone))\<lparr>innerWidth := 800\<rparr>))
   \<and> style (autoDetectAndApply ((page_after (new_CompactMobileMode None phone))\<lparr>innerWidth := 800\<rparr>))
         ''--compact-scale-factor'' = None"
  using autoDetectAndApply_tracks_width [of "page_after (new_CompactMobileMode None phone)" 800]
  by (simp add: method_defs setup_defs Let_def)

section \<open>The marker class and the published scale\<close>

lemma step_keeps_marker:
  "isCompactMode s = (''compact-mode'' \<in> classList s) \<Longrightarrow>
   isCompactMode (step x s) = (''compact-mode'' \<in> classList (step x s))"
  by (cases x) (auto simp add: method_defs Let_def split: option.splits)

lemma new_marker:
  "''compact-mode'' \<notin> classList b \<Longrightarrow>
   isCompactMode (page_after (new_CompactMobileMode cfg b))
     = (''compact-mode'' \<in> classList (page_after (new_CompactMobileMode cfg b)))"
  by (simp add: new_CompactMobileMode_def method_defs Let_def)

lemma run_keeps_marker:
  "isCompactMode s = (''compact-mode'' \<in> classList s) \<Longrightarrow>
   isCompactMode (run xs s) = (''compact-mode'' \<in> classList (run xs s))"
proof (induction xs arbitrary: s)
  case Nil
  then show ?case by simp
next
  case (Cons x xs)
  from Cons.prems have "isCompactMode (step x s) = (''compact-mode'' \<in> classList (step x s))"
    by (rule step_keeps_marker)
  then show ?case using Cons.IH by simp
qed

text \<open>
  The first half of C2 holds: from a document root that does not carry \<open>compact-mode\<close>
  before the controller is constructed, \<open>isCompactMode\<close> and the presence of that class
  agree in every state a run reaches.
\<close>

lemma marker_class_tracks_isCompactMode:
  "''compact-mode'' \<notin> classList b \<Longrightarrow>
   isCompactMode (run xs (page_after (new_CompactMobileMode cfg b)))
     = (''compact-mode'' \<in> classList (run xs (page_after (new_CompactMobileMode cfg b))))"
  by (intro run_keeps_marker new_marker)

text \<open>
  C2 says that in every reachable state \<open>isCompactMode\<close> agrees with the marker class,
  and that the scale factor the controller reports equals the published scale-factor
  property, both being absent when not compact. The code breaks the second half.
  A controller built at width 375 is compact by auto-detection; after
  \<open>setCompactModeLevel("smaller")\<close> it is still compact, the published property is 0.8,
  and \<open>getStatus\<close> reports 0.857. A controller built at width 800 is not compact; after
  \<open>setCompactModeLevel("smaller")\<close> it is still not compact and the property is
  published all the same.
\<close>

theorem reported_scale_differs_from_published:
  "isCompactMode (run [SetCompactModeLevel Smaller] (page_after (new_CompactMobileMode None phone)))
   \<and> style (run [SetCompactModeLevel Smaller] (page_after (new_CompactMobileMode None phone)))
        ''--compact-scale-factor'' = Some (NumberText (8 / 10))
   \<and> status_scaleFactor (getStatus (run [SetCompactModeLevel Smaller]
        (page_after (new_CompactMobileMode None phone)))) = 857 / 1000
   \<and> style (run [SetCompactModeLevel Smaller] (page_after (new_CompactMobileMode None phone)))
        ''--compact-scale-factor''
      \<noteq> Some (NumberText (status_scaleFactor (getStatus (run [SetCompactModeLevel Smaller]
        (page_after (new_CompactMobileMode None phone))))))
   \<and> \<not> isCompactMode (run [SetCompactModeLevel Smaller]
        (page_after (new_CompactMobileMode None desktop)))
   \<and> style (run [SetCompactModeLevel Smaller] (page_after (new_CompactMobileMode None desktop)))
        ''--compact-scale-factor'' = Some (NumberText (8 / 10))"
  by (simp add: method_defs setup_defs Let_def)

section \<open>Manual mode\<close>

lemma step_keeps_manual: "isManualMode s \<Longrightarrow> isManualMode (step x s)"
  by (cases x) (simp_all add: method_defs Let_def split: option.splits)

lemma run_keeps_manual: "isManualMode s \<Longrightarrow> isManualMode (run xs s)"
  by (induction xs arbitrary: s) (simp_all add: step_keeps_manual)

text \<open>
  C3. Once \<open>isManualMode\<close> is set, no sequence of operations clears it, and every later
  width re-evaluation, by a resize-driven \<open>autoDetectAndApply\<close> or by a media query
  change, leaves \<open>isCompactMode\<close> as it was: it changes nothing but the window width.
\<close>

theorem manual_mode_is_permanent:
  assumes "isManualMode s"
  shows "isManualMode (run xs s)
    \<and> isCompactMode (step (AutoDetectAndApply w) (run xs s)) = isCompactMode (run xs s)
    \<and> isCompactMode (step (HandleMediaQueryChange w) (run xs s)) = isCompactMode (run xs s)
    \<and> step (AutoDetectAndApply w) (run xs s) = (run xs s)\<lparr>innerWidth := w\<rparr>
    \<and> step (HandleMediaQueryChange w) (run xs s) = (run xs s)\<lparr>innerWidth := w\<rparr>"
proof -
  have m: "isManualMode (run xs s)"
    using assms by (rule run_keeps_manual)
  then show ?thesis
    by (simp add: autoDetectAndApply_def handleMediaQueryChange_def)
qed

text \<open>
  The scenario of the specification: a manual toggle at width 800 makes the page
  compact, and later resizes below and above the breakpoint do not change that.
\<close>

theorem manual_mode_is_permanent_witness:
  "isManualMode (toggleCompactMode (page_after (new_CompactMobileMode None desktop)))
   \<and> isCompactMode (toggleCompactMode (page_after (new_CompactMobileMode None desktop)))
   \<and> isManualMode (run [AutoDetectAndApply 375, UpdateConfig no_overrides, Destroy]
        (toggleCompactMode (page_after (new_CompactMobileMode None desktop))))
   \<and> isCompactMode (step (AutoDetectAndApply 1024)
        (run [AutoDetectAndApply 375, HandleMediaQueryChange 800]
          (toggleCompactMode (page_after (new_CompactMobileMode None desktop)))))"
  using manual_mode_is_permanent
    [of "toggleCompactMode (page_after (new_CompactMobileMode None desktop))"
        "[AutoDetectAndApply 375, UpdateConfig no_overrides, Destroy]" 1024]
    manual_mode_is_permanent
    [of "toggleCompactMode (page_after (new_CompactMobileMode None desktop))"
        "[AutoDetectAndApply 375, HandleMediaQueryChange 800]" 1024]
  by (simp add: method_defs setup_defs Let_def)

section \<open>Toggling\<close>

text \<open>
  C4. From every state, \<open>toggleCompactMode\<close> negates \<open>isCompactMode\<close> and sets
  \<open>isManualMode\<close>; two calls in a row give back the original \<open>isCompactMode\<close>, with
  \<open>isManualMode\<close> still set.
\<close>

theorem toggleCompactMode_flips:
  "isCompactMode (toggleCompactMode s) = (\<not> isCompactMode s)
   \<and> isManualMode (toggleCompactMode s)
   \<and> isCompactMode (toggleCompactMode (toggleCompactMode s)) = isCompactMode s
   \<and> isManualMode (toggleCompactMode (toggleCompactMode s))"
  by (simp add: method_defs Let_def)

theorem toggleCompactMode_flips_witness:
  "isCompactMode (toggleCompactMode (page_after (new_CompactMobileMode None desktop)))
   \<and> isManualMode (toggleCompactMode (page_after (new_CompactMobileMode None desktop)))
   \<and> \<not> isCompactMode (toggleCompactMode (toggleCompactMode (page_after (new_CompactMobileMode None desktop))))
   \<and> isManualMode (toggleCompactMode (toggleCompactMode (page_after (new_CompactMobileMode None desktop))))"
  using toggleCompactMode_flips [of "page_after (new_CompactMobileMode None desktop)"]
  by (simp add: method_defs setup_defs Let_def)

section \<open>Levels\<close>

text \<open>
  C5. From every state, \<open>setCompactModeLevel("smaller")\<close> followed by
  \<open>setCompactModeLevel("normal")\<close> gives the state that \<open>setCompactModeLevel("normal")\<close>
  alone gives: the published scale-factor property is \<open>config.scaleFactor\<close>, the base
  font size is the default 12px, and the class \<open>compact-mode-smaller\<close> is absent.
\<close>

theorem setCompactModeLevel_round_trip:
  "setCompactModeLevel Normal (setCompactModeLevel Smaller s) = setCompactModeLevel Normal s
   \<and> style (setCompactModeLevel Normal (setCompactModeLevel Smaller s)) ''--compact-scale-factor''
       = Some (NumberText (scaleFactor (config s)))
   \<and> style (setCompactModeLevel Normal (setCompactModeLevel Smaller s)) ''--compact-font-base''
       = Some (PxText 12)
   \<and> ''compact-mode-smaller''
       \<notin> classList (setCompactModeLevel Normal (setCompactModeLevel Smaller s))"
  by (simp add: method_defs Let_def)

theorem setCompactModeLevel_round_trip_witness:
  "style (setCompactModeLevel Smaller (page_after (new_CompactMobileMode None phone)))
       ''--compact-scale-factor'' = Some (NumberText (8 / 10))
   \<and> style (setCompactModeLevel Normal (setCompactModeLevel Smaller
         (page_after (new_CompactMobileMode None phone)))) ''--compact-scale-factor''
       = Some (NumberText (857 / 1000))
   \<and> style (setCompactModeLevel Normal (setCompactModeLevel Smaller
         (page_after (new_CompactMobileMode None phone)))) ''--compact-font-base''
       = Some (PxText 12)"
  using setCompactModeLevel_round_trip [of "page_after (new_CompactMobileMode None phone)"]
  by (simp add: method_defs setup_defs Let_def)

text \<open>
  C7. For either level and from every state, \<open>setCompactModeLevel\<close> sets
  \<open>isManualMode\<close> and leaves \<open>isCompactMode\<close> as it was.
\<close>

theorem setCompactModeLevel_frame:
  "isManualMode (setCompactModeLevel l s)
   \<and> isCompactMode (setCompactModeLevel l s) = isCompactMode s"
  by (simp add: method_defs Let_def)

theorem setCompactModeLevel_frame_witness:
  "isManualMode (setCompactModeLevel Smaller (page_after (new_CompactMobileMode None desktop)))
   \<and> \<not> isCompactMode (setCompactModeLevel Smaller (page_after (new_CompactMobileMode None desktop)))
   \<and> \<not> isCompactMode (page_after (new_CompactMobileMode None desktop))"
  using setCompactModeLevel_frame [of Smaller "page_after (new_CompactMobileMode None desktop)"]
  by (simp add: method_defs setup_defs Let_def)

section \<open>Enabling and disabling\<close>

text \<open>
  C6. When \<open>isCompactMode\<close> already holds, \<open>enableCompactMode\<close> returns the page as it
  was: every field of the controller, the classes and custom properties of the document
  root, and the list of dispatched events are unchanged. In the same way
  \<open>disableCompactMode\<close> changes nothing when \<open>isCompactMode\<close> does not hold.
\<close>

theorem enable_disable_idempotent:
  "(isCompactMode s \<longrightarrow> enableCompactMode s = s)
   \<and> (\<not> isCompactMode s \<longrightarrow> disableCompactMode s = s)"
  by (simp add: enableCompactMode_def disableCompactMode_def)

theorem enable_disable_idempotent_witness:
  "isCompactMode (page_after (new_CompactMobileMode None phone))
   \<and> enableCompactMode (page_after (new_CompactMobileMode None phone))
       = page_after (new_CompactMobileMode None phone)
   \<and> length (dispatched (enableCompactMode (page_after (new_CompactMobileMode None phone)))) = 1
   \<and> \<not> isCompactMode (page_after (new_CompactMobileMode None desktop))
   \<and> disableCompactMode (page_after (new_CompactMobileMode None desktop))
       = page_after (new_CompactMobileMode None desktop)
   \<and> dispatched (disableCompactMode (page_after (new_CompactMobileMode None desktop))) = []"
proof -
  have p: "isCompactMode (page_after (new_CompactMobileMode None phone))"
    by (simp add: method_defs setup_defs Let_def)
  have d: "\<not> isCompactMode (page_after (new_CompactMobileMode None desktop))"
    by (simp add: method_defs setup_defs Let_def)
  have e: "enableCompactMode (page_after (new_CompactMobileMode None phone))
             = page_after (new_CompactMobileMode None phone)"
    using enable_disable_idempotent [of "page_after (new_CompactMobileMode None phone)"] p by simp
  have f: "disableCompactMode (page_after (new_CompactMobileMode None desktop))
             = page_after (new_CompactMobileMode None desktop)"
    using enable_disable_idempotent [of "page_after (new_CompactMobileMode None desktop)"] d by simp
  have "length (dispatched (page_after (new_CompactMobileMode None phone))) = 1"
    by (simp add: method_defs setup_defs Let_def)
  moreover have "dispatched (page_after (new_CompactMobileMode None desktop)) = []"
    by (simp add: method_defs setup_defs Let_def)
  ultimately show ?thesis
    using p d e f by simp
qed

section \<open>Initialisation of the module\<close>




section \<open>Teardown\<close>

lemma destroy_cleans_compact:
  "isCompactMode s \<Longrightarrow>
   ''compact-mode'' \<notin> classList (destroy s)
   \<and> ''compact-mode-smaller'' \<notin> classList (destroy s)
   \<and> style (destroy s) ''--compact-scale-factor'' = None
   \<and> style (destroy s) ''--compact-font-base'' = None
   \<and> style (destroy s) ''--compact-touch-min-size'' = None"
  by (simp add: method_defs Let_def split: option.splits)

text \<open>
  C9 says that after \<open>destroy\<close> the document root carries neither marker class and none
  of the three custom properties, whatever the state before. The code gets there only
  from a compact state (the lemma above): \<open>destroy\<close> cleans up through
  \<open>disableCompactMode\<close>, which returns at once when \<open>isCompactMode\<close> is false. A
  controller built at width 800 is not compact; after \<open>setCompactModeLevel("smaller")\<close>
  and \<open>destroy\<close> the class \<open>compact-mode-smaller\<close> and all three properties are still
  there.
\<close>

theorem destroy_leaves_smaller_level:
  "\<not> isCompactMode (run [SetCompactModeLevel Smaller, Destroy] (page_after (new_CompactMobileMode None desktop)))
   \<and> ''compact-mode-smaller'' \<in> classList
        (run [SetCompactModeLevel Smaller, Destroy] (page_after (new_CompactMobileMode None desktop)))
   \<and> style (run [SetCompactModeLevel Smaller, Destroy] (page_after (new_CompactMobileMode None desktop)))
        ''--compact-scale-factor'' = Some (NumberText (8 / 10))
   \<and> style (run [SetCompactModeLevel Smaller, Destroy] (page_after (new_CompactMobileMode None desktop)))
        ''--compact-font-base'' = Some (PxText 11)
   \<and> style (run [SetCompactModeLevel Smaller, Destroy] (page_after (new_CompactMobileMode None desktop)))
        ''--compact-touch-min-size'' = Some (PxText 40)"
  by (simp add: method_defs setup_defs Let_def)

section \<open>The reported scale factor\<close>

lemma step_dispatches:
  "\<exists>new. dispatched (step x s) = dispatched s @ new
     \<and> (\<forall>e \<in> set new. detail_scaleFactor e = scaleFactor (config s))"
  by (cases x) (auto simp add: method_defs Let_def split: option.splits)

lemma new_dispatches:
  "\<exists>new. dispatched (page_after (new_CompactMobileMode cfg b)) = dispatched b @ new
     \<and> (\<forall>e \<in> set new.
           detail_scaleFactor e = scaleFactor (config (page_after (new_CompactMobileMode cfg b))))"
  by (auto simp add: new_CompactMobileMode_def method_defs Let_def)

lemma step_keeps_payloads:
  "\<forall>p. x \<noteq> UpdateConfig p \<Longrightarrow>
   \<forall>e \<in> set (dispatched s). detail_scaleFactor e = scaleFactor (config s) \<Longrightarrow>
   \<forall>e \<in> set (dispatched (step x s)). detail_scaleFactor e = scaleFactor (config (step x s))"
  by (cases x) (auto simp add: method_defs Let_def split: option.splits)

lemma run_keeps_payloads:
  "\<forall>p. UpdateConfig p \<notin> set xs \<Longrightarrow>
   \<forall>e \<in> set (dispatched s). detail_scaleFactor e = scaleFactor (config s) \<Longrightarrow>
   \<forall>e \<in> set (dispatched (run xs s)). detail_scaleFactor e = scaleFactor (config (run xs s))"
proof (induction xs arbitrary: s)
  case Nil
  then show ?case by simp
next
  case (Cons x xs)
  from Cons.prems(1) have x: "\<forall>p. x \<noteq> UpdateConfig p" and xs: "\<forall>p. UpdateConfig p \<notin> set xs"
    by auto
  have "\<forall>e \<in> set (dispatched (step x s)). detail_scaleFactor e = scaleFactor (config (step x s))"
    using x Cons.prems(2) by (rule step_keeps_payloads)
  with xs show ?case
    using Cons.IH [of "step x s"] by simp
qed

lemma new_payloads:
  "dispatched b = [] \<Longrightarrow>
   \<forall>e \<in> set (dispatched (page_after (new_CompactMobileMode cfg b))).
      detail_scaleFactor e = scaleFactor (config (page_after (new_CompactMobileMode cfg b)))"
  by (auto simp add: new_CompactMobileMode_def method_defs Let_def)

text \<open>
  C10. In every state \<open>getStatus().scaleFactor\<close> is \<open>config.scaleFactor\<close>, and every
  \<open>compactModeChange\<close> event, whether an operation or the constructor dispatches it,
  carries the \<open>config.scaleFactor\<close> in force when it is dispatched. So in every state
  reached from a window with no event dispatched yet, by operations other than
  \<open>updateConfig\<close>, every dispatched event carries \<open>config.scaleFactor\<close>. After
  \<open>setCompactModeLevel("smaller")\<close> has published the scale 0.8, the reported scale
  factor is still \<open>config.scaleFactor\<close>.
\<close>

theorem reported_scale_is_configured_scale:
  "status_scaleFactor (getStatus s) = scaleFactor (config s)
   \<and> (\<exists>new. dispatched (step x s) = dispatched s @ new
        \<and> (\<forall>e \<in> set new. detail_scaleFactor e = scaleFactor (config s)))
   \<and> (\<exists>new. dispatched (page_after (new_CompactMobileMode cfg b)) = dispatched b @ new
        \<and> (\<forall>e \<in> set new.
              detail_scaleFactor e = scaleFactor (config (page_after (new_CompactMobileMode cfg b)))))
   \<and> (dispatched b = [] \<and> (\<forall>p. UpdateConfig p \<notin> set xs) \<longrightarrow>
        (\<forall>e \<in> set (dispatched (run xs (page_after (new_CompactMobileMode cfg b)))).
           detail_scaleFactor e = scaleFactor (config (run xs (page_after (new_CompactMobileMode cfg b))))))
   \<and> style (setCompactModeLevel Smaller s) ''--compact-scale-factor''
       = Some (NumberText (8 / 10))
   \<and> status_scaleFactor (getStatus (setCompactModeLevel Smaller s)) = scaleFactor (config s)"
proof -
  have "dispatched b = [] \<and> (\<forall>p. UpdateConfig p \<notin> set xs) \<longrightarrow>
        (\<forall>e \<in> set (dispatched (run xs (page_after (new_CompactMobileMode cfg b)))).
           detail_scaleFactor e = scaleFactor (config (run xs (page_after (new_CompactMobileMode cfg b)))))"
    by (intro impI run_keeps_payloads new_payloads) simp_all
  then show ?thesis
    using step_dispatches [of x s] new_dispatches [of cfg b]
    by (simp add: getStatus_def setCompactModeLevel_def updateCSSProperties_def Let_def)
qed

theorem reported_scale_is_configured_scale_witness:
  "dispatched phone = []
   \<and> status_scaleFactor (getStatus (setCompactModeLevel Smaller (page_after (new_CompactMobileMode None phone))))
     = 857 / 1000
   \<and> style (setCompactModeLevel Smaller (page_after (new_CompactMobileMode None phone)))
        ''--compact-scale-factor'' = Some (NumberText (8 / 10))
   \<and> map detail_scaleFactor
        (dispatched (run [SetCompactModeLevel Smaller, DisableCompactMode]
          (page_after (new_CompactMobileMode None phone))))
      = [857 / 1000, 857 / 1000]"
  using reported_scale_is_configured_scale
    [of "page_after (new_CompactMobileMode None phone)" DisableCompactMode None phone
        "[SetCompactModeLevel Smaller, DisableCompactMode]"]
  by (simp add: method_defs setup_defs Let_def)

end
